theory Spec2Isabelle
  imports Complex_Main "HOL-Library.Sublist"
begin

section \<open>The motor dashboard of gym-electric-motor\<close>

text \<open>
  A shallow embedding of \<^verbatim>\<open>gym_electric_motor/visualization/motor_dashboard.py\<close>.
  The class \<^verbatim>\<open>MotorDashboard\<close> owns a list of plots and a matplotlib figure. All it does
  is call its plots and matplotlib in a certain order, so the model threads two values
  through every method: the dashboard object itself (a record of its four attributes) and
  the world outside it (the matplotlib backend in use and the log of every call the
  dashboard has made on a plot or on matplotlib, oldest first).

  The plot classes (\<^verbatim>\<open>motor_dashboard_plots\<close>) and matplotlib are not part of the file.
  A call into them that Python can make is recorded in the log and is taken to return
  normally; what \<^verbatim>\<open>plt.subplots\<close> returns follows matplotlib's documentation. A method
  call on a plot that is a class object, which the constructor stores when it is given
  one, cannot be made: it raises \<^verbatim>\<open>TypeError\<close>, and the model raises it too.
\<close>

subsection \<open>Python values\<close>

datatype py_error =
    AssertionError string
  | TypeError
  | ValueError
  | IndexError
  | ZeroDivisionError
  | AttributeError

text \<open>A class is its name and its direct base classes.\<close>

datatype py_class = PyClass string "py_class list"

fun issubclass_of :: "py_class \<Rightarrow> py_class \<Rightarrow> bool" where
  "issubclass_of (PyClass n bs) d = (PyClass n bs = d \<or> list_ex (\<lambda>b. issubclass_of b d) bs)"

text \<open>
  What an element of the constructor's \<^verbatim>\<open>plots\<close> argument can be: a \<^verbatim>\<open>str\<close>
  (\<^verbatim>\<open>type(plot) is str\<close>), a class object, or an instance of a class.
\<close>

datatype pyobj = Str string | Class py_class | Instance py_class

text \<open>
  The builtin \<^verbatim>\<open>issubclass(x, d)\<close>: a \<^verbatim>\<open>TypeError\<close> ("arg 1 must be a class") unless
  \<^verbatim>\<open>x\<close> is a class object.
\<close>

fun issubclass :: "pyobj \<Rightarrow> py_class \<Rightarrow> py_error + bool" where
  "issubclass (Class c) d = Inr (issubclass_of c d)"
| "issubclass (Str s) d = Inl TypeError"
| "issubclass (Instance c) d = Inl TypeError"

text \<open>The base class \<^verbatim>\<open>mdp.MotorDashboardPlot\<close> and the three plot classes derived from it.\<close>

definition MotorDashboardPlot :: py_class where
  "MotorDashboardPlot = PyClass ''MotorDashboardPlot'' []"

definition RewardPlot_class :: py_class where
  "RewardPlot_class = PyClass ''RewardPlot'' [MotorDashboardPlot]"

definition ActionPlot_class :: py_class where
  "ActionPlot_class = PyClass ''ActionPlot'' [MotorDashboardPlot]"

definition StatePlot_class :: py_class where
  "StatePlot_class = PyClass ''StatePlot'' [MotorDashboardPlot]"

text \<open>
  An entry of \<^verbatim>\<open>self._plots\<close>: \<^verbatim>\<open>mdp.RewardPlot()\<close>, \<^verbatim>\<open>mdp.ActionPlot(plot)\<close>,
  \<^verbatim>\<open>mdp.StatePlot(plot)\<close>, or the object the caller supplied, appended as it is.
\<close>

datatype plot = RewardPlot | ActionPlot string | StatePlot string | Supplied pyobj

subsection \<open>matplotlib\<close>

datatype figure = Figure nat

datatype axes = Axes nat

text \<open>
  The second component of \<^verbatim>\<open>plt.subplots(n, sharex=True)\<close>: one \<^verbatim>\<open>Axes\<close> object when
  \<^verbatim>\<open>n = 1\<close>, an array of \<^verbatim>\<open>n\<close> of them otherwise (\<^verbatim>\<open>squeeze=True\<close> is the default).
\<close>

datatype axes_result = Single axes | Array "axes list"

definition plt_subplots :: "nat \<Rightarrow> py_error + figure \<times> axes_result" where
  "plt_subplots n =
     (if n = 0 then Inl ValueError
      else if n = 1 then Inr (Figure n, Single (Axes 0))
      else Inr (Figure n, Array (map Axes [0..<n])))"

text \<open>Iterating over the result, as \<^verbatim>\<open>zip\<close> does: a single \<^verbatim>\<open>Axes\<close> is not iterable.\<close>

fun iter_axes :: "axes_result \<Rightarrow> py_error + axes list" where
  "iter_axes (Array as) = Inr as"
| "iter_axes (Single a) = Inl TypeError"

type_synonym ndarray = "real list"

datatype module = Module string

text \<open>
  The calls the dashboard makes. \<^verbatim>\<open>Fig_subplots_adjust\<close> is
  \<^verbatim>\<open>subplots_adjust(wspace=0.0, hspace=0.2)\<close>, \<^verbatim>\<open>Plt_pause\<close> is \<^verbatim>\<open>plt.pause(0.1)\<close>.
\<close>

datatype event =
    Plt_ion
  | Plt_close
  | Plt_style_use string
  | Plt_subplots nat
  | Fig_subplots_adjust figure
  | Plt_xlabel string
  | Plt_pause
  | Plot_reset plot
  | Plot_step plot int ndarray ndarray "ndarray option" "real option" bool
  | Plot_set_modules plot module module module
  | Plot_initialize plot axes_result
  | Plot_update plot
  | Canvas_draw figure
  | Canvas_flush_events figure

record world =
  backend :: string
  events :: "event list"

definition emit :: "event \<Rightarrow> world \<Rightarrow> world" where
  "emit e w = w\<lparr>events := events w @ [e]\<rparr>"

text \<open>
  A method call \<^verbatim>\<open>plot.m(...)\<close> binds \<^verbatim>\<open>self\<close> when \<^verbatim>\<open>plot\<close> is an instance. When
  \<^verbatim>\<open>plot\<close> is a class object the function is called without \<^verbatim>\<open>self\<close>, one argument
  short, and Python raises \<^verbatim>\<open>TypeError\<close> before the body runs. The constructor stores
  the instances it builds and, of the objects it is given, class objects only (see
  \<open>add_plots_stores_classes\<close> below): no dashboard it returns holds a supplied string or
  a supplied instance, and a call on one of these two is treated like a call that binds.
\<close>

fun binds :: "plot \<Rightarrow> bool" where
  "binds (Supplied (Class c)) = False"
| "binds p = True"

text \<open>One method call on a plot: logged when it binds, \<^verbatim>\<open>TypeError\<close> and no log entry otherwise.\<close>

definition plot_call :: "plot \<Rightarrow> event \<Rightarrow> world \<Rightarrow> (py_error + unit) \<times> world" where
  "plot_call p e w = (if binds p then (Inr (), emit e w) else (Inl TypeError, w))"

text \<open>
  \<^verbatim>\<open>for x in xs: plot.m(...)\<close>, where \<open>target x\<close> is the plot called and \<open>call x\<close> the
  call made on it. The first exception ends the loop.
\<close>

primrec for_each ::
  "('a \<Rightarrow> plot) \<Rightarrow> ('a \<Rightarrow> event) \<Rightarrow> 'a list \<Rightarrow> world \<Rightarrow> (py_error + unit) \<times> world" where
  "for_each target call [] w = (Inr (), w)"
| "for_each target call (x # xs) w =
     (case plot_call (target x) (call x) w of
        (Inl e, w') \<Rightarrow> (Inl e, w')
      | (Inr u, w') \<Rightarrow> for_each target call xs w')"

subsection \<open>The dashboard\<close>

record dashboard =
  update_cycle :: int
  figure :: "figure option"
  plots :: "plot list"
  dark_mode :: bool

text \<open>The loop of \<^verbatim>\<open>__init__\<close> over its \<^verbatim>\<open>plots\<close> argument; \<open>acc\<close> is \<^verbatim>\<open>self._plots\<close>.\<close>

fun add_plots :: "pyobj list \<Rightarrow> plot list \<Rightarrow> py_error + plot list" where
  "add_plots [] acc = Inr acc"
| "add_plots (Str s # ps) acc =
     (if s = ''reward'' then add_plots ps (acc @ [RewardPlot])
      else if prefix ''action_'' s then add_plots ps (acc @ [ActionPlot s])
      else add_plots ps (acc @ [StatePlot s]))"
| "add_plots (p # ps) acc =
     (case issubclass p MotorDashboardPlot of
        Inl e \<Rightarrow> Inl e
      | Inr b \<Rightarrow>
          if b then add_plots ps (acc @ [Supplied p])
          else Inl (AssertionError []))"

text \<open>\<^verbatim>\<open>__init__\<close>: \<^verbatim>\<open>plt.ion()\<close>, the four attributes, and the loop over \<^verbatim>\<open>plots\<close>.\<close>

definition init :: "pyobj list \<Rightarrow> int \<Rightarrow> bool \<Rightarrow> world \<Rightarrow> (py_error + dashboard) \<times> world" where
  "init plots_arg cycle dark w =
     (let w1 = emit Plt_ion w in
      case add_plots plots_arg [] of
        Inl e \<Rightarrow> (Inl e, w1)
      | Inr ps \<Rightarrow>
          (Inr \<lparr>update_cycle = cycle, figure = None, plots = ps, dark_mode = dark\<rparr>, w1))"

text \<open>\<^verbatim>\<open>reset\<close>: \<^verbatim>\<open>for plot in self._plots: plot.reset()\<close>.\<close>

definition reset :: "dashboard \<Rightarrow> world \<Rightarrow> (py_error + unit) \<times> dashboard \<times> world" where
  "reset d w = (case for_each (\<lambda>p. p) Plot_reset (plots d) w of (r, w') \<Rightarrow> (r, d, w'))"

text \<open>\<^verbatim>\<open>set_modules\<close>: \<^verbatim>\<open>for plot in self._plots: plot.set_modules(ps, rg, rf)\<close>.\<close>

definition set_modules ::
  "module \<Rightarrow> module \<Rightarrow> module \<Rightarrow> dashboard \<Rightarrow> world \<Rightarrow> (py_error + unit) \<times> dashboard \<times> world" where
  "set_modules ps rg rf d w =
     (case for_each (\<lambda>p. p) (\<lambda>p. Plot_set_modules p ps rg rf) (plots d) w of
        (r, w') \<Rightarrow> (r, d, w'))"

text \<open>
  \<^verbatim>\<open>_initialize\<close>: \<^verbatim>\<open>plt.close()\<close>, the assertion that there is a plot, the dark style
  if \<^verbatim>\<open>dark_mode\<close> is set, \<^verbatim>\<open>plt.subplots(len(self._plots), sharex=True)\<close>, whose
  figure is stored, \<^verbatim>\<open>subplots_adjust\<close> and \<^verbatim>\<open>plt.xlabel('t/s')\<close>. Then, with fewer
  than two plots, \<^verbatim>\<open>self._plots[0].initialize(axes)\<close>; otherwise
  \<^verbatim>\<open>plot.initialize(axis)\<close> for every pair of \<^verbatim>\<open>zip(self._plots, axes)\<close>. Both
  branches end with \<^verbatim>\<open>plt.pause(0.1)\<close>.
\<close>

definition initialize :: "dashboard \<Rightarrow> world \<Rightarrow> (py_error + unit) \<times> dashboard \<times> world" where
  "initialize d w =
     (let w1 = emit Plt_close w in
      if \<not> length (plots d) > 0 then (Inl (AssertionError ''no plot variable selected''), d, w1)
      else
        let w2 = (if dark_mode d then emit (Plt_style_use ''dark_background'') w1 else w1);
            w3 = emit (Plt_subplots (length (plots d))) w2
        in case plt_subplots (length (plots d)) of
             Inl e \<Rightarrow> (Inl e, d, w3)
           | Inr (fig, axs) \<Rightarrow>
               let d1 = d\<lparr>figure := Some fig\<rparr>;
                   w4 = emit (Fig_subplots_adjust fig) w3;
                   w5 = emit (Plt_xlabel ''t/s'') w4
               in if length (plots d1) < 2 then
                    (case plots d1 of
                       [] \<Rightarrow> (Inl IndexError, d1, w5)
                     | p # _ \<Rightarrow>
                         (case plot_call p (Plot_initialize p axs) w5 of
                            (Inl e, w6) \<Rightarrow> (Inl e, d1, w6)
                          | (Inr u, w6) \<Rightarrow> (Inr (), d1, emit Plt_pause w6)))
                  else
                    (case iter_axes axs of
                       Inl e \<Rightarrow> (Inl e, d1, w5)
                     | Inr as \<Rightarrow>
                         (case for_each fst (\<lambda>(p, a). Plot_initialize p (Single a))
                                 (zip (plots d1) as) w5 of
                            (Inl e, w6) \<Rightarrow> (Inl e, d1, w6)
                          | (Inr u, w6) \<Rightarrow> (Inr (), d1, emit Plt_pause w6))))"

text \<open>
  \<^verbatim>\<open>_update\<close>: \<^verbatim>\<open>plot.update()\<close> for every plot, \<^verbatim>\<open>self._figure.canvas.draw()\<close> under
  the backend \<^verbatim>\<open>NbAgg\<close>, then \<^verbatim>\<open>self._figure.canvas.flush_events()\<close>. Without a figure
  the attribute access on \<^verbatim>\<open>None\<close> raises \<^verbatim>\<open>AttributeError\<close>.
\<close>

definition update :: "dashboard \<Rightarrow> world \<Rightarrow> (py_error + unit) \<times> dashboard \<times> world" where
  "update d w =
     (case for_each (\<lambda>p. p) Plot_update (plots d) w of
        (Inl e, w1) \<Rightarrow> (Inl e, d, w1)
      | (Inr u, w1) \<Rightarrow>
          (case figure d of
             None \<Rightarrow> (Inl AttributeError, d, w1)
           | Some fig \<Rightarrow>
               let w2 = (if backend w1 = ''NbAgg'' then emit (Canvas_draw fig) w1 else w1)
               in (Inr (), d, emit (Canvas_flush_events fig) w2)))"

text \<open>
  \<^verbatim>\<open>step\<close>: \<^verbatim>\<open>_initialize\<close> if there is no figure, \<^verbatim>\<open>plot.step(...)\<close> for every plot,
  and \<^verbatim>\<open>_update\<close> if \<^verbatim>\<open>(k + 1) % self._update_cycle == 0\<close>. Python's \<^verbatim>\<open>%\<close> on
  integers rounds towards minus infinity, as \<open>mod\<close> on \<open>int\<close> does, and raises
  \<^verbatim>\<open>ZeroDivisionError\<close> for a zero divisor. The state an exception leaves behind is
  returned with it.
\<close>

definition step ::
  "int \<Rightarrow> ndarray \<Rightarrow> ndarray \<Rightarrow> ndarray option \<Rightarrow> real option \<Rightarrow> bool \<Rightarrow>
   dashboard \<Rightarrow> world \<Rightarrow> (py_error + unit) \<times> dashboard \<times> world" where
  "step k state reference action reward done d w =
     (case (if figure d = None then initialize d w else (Inr (), d, w)) of
        (Inl e, d1, w1) \<Rightarrow> (Inl e, d1, w1)
      | (Inr _, d1, w1) \<Rightarrow>
          (case for_each (\<lambda>p. p) (\<lambda>p. Plot_step p k state reference action reward done)
                  (plots d1) w1 of
             (Inl e, w2) \<Rightarrow> (Inl e, d1, w2)
           | (Inr u, w2) \<Rightarrow>
               if update_cycle d1 = 0 then (Inl ZeroDivisionError, d1, w2)
               else if (k + 1) mod update_cycle d1 = 0 then update d1 w2
               else (Inr (), d1, w2)))"

subsection \<open>Observations on the log, and a caller\<close>

text \<open>
  A batched redraw ends with exactly one \<^verbatim>\<open>flush_events\<close> on the canvas, and a figure
  is made by exactly one \<^verbatim>\<open>plt.subplots\<close>; counting these calls in the log counts the
  redraws and the figures made.
\<close>

fun is_flush :: "event \<Rightarrow> bool" where
  "is_flush (Canvas_flush_events f) = True"
| "is_flush e = False"

definition redraws :: "world \<Rightarrow> nat" where
  "redraws w = length (filter is_flush (events w))"

fun is_subplots :: "event \<Rightarrow> bool" where
  "is_subplots (Plt_subplots n) = True"
| "is_subplots e = False"

definition surfaces_created :: "world \<Rightarrow> nat" where
  "surfaces_created w = length (filter is_subplots (events w))"

text \<open>
  The environment calls \<^verbatim>\<open>step\<close> once per \<^verbatim>\<open>render()\<close>. \<open>run\<close> makes the calls of a
  list one after the other on the same dashboard; an exception ends the run, as it would
  in a caller that does not catch it.
\<close>

type_synonym step_args = "int \<times> ndarray \<times> ndarray \<times> ndarray option \<times> real option \<times> bool"

fun run :: "step_args list \<Rightarrow> dashboard \<Rightarrow> world \<Rightarrow> (py_error + unit) \<times> dashboard \<times> world" where
  "run [] d w = (Inr (), d, w)"
| "run ((k, state, reference, action, reward, done) # calls) d w =
     (case step k state reference action reward done d w of
        (Inl e, d', w') \<Rightarrow> (Inl e, d', w')
      | (Inr u, d', w') \<Rightarrow> run calls d' w')"

section \<open>Basic facts\<close>

lemma for_each_eq:
  "for_each target call xs w =
     (if list_all (\<lambda>x. binds (target x)) xs then Inr () else Inl TypeError,
      w\<lparr>events := events w @ map call (takeWhile (\<lambda>x. binds (target x)) xs)\<rparr>)"
  by (induction xs arbitrary: w) (simp_all add: plot_call_def emit_def)

lemma takeWhile_all: "list_all P xs \<Longrightarrow> takeWhile P xs = xs"
  by (simp add: list_all_iff)

lemma for_each_bound:
  "list_all (\<lambda>x. binds (target x)) xs \<Longrightarrow>
   for_each target call xs w = (Inr (), w\<lparr>events := events w @ map call xs\<rparr>)"
  by (simp add: for_each_eq takeWhile_all)

lemma list_all_fst_zip:
  "length xs = length ys \<Longrightarrow> list_all (\<lambda>x. P (fst x)) (zip xs ys) = list_all P xs"
  by (induction xs ys rule: list_induct2) simp_all

lemma add_plots_strings:
  "add_plots (map Str tags) acc =
     Inr (acc @ map (\<lambda>s. if s = ''reward'' then RewardPlot
                          else if prefix ''action_'' s then ActionPlot s
                          else StatePlot s) tags)"
  by (induction tags arbitrary: acc) simp_all

lemma init_strings:
  "init (map Str tags) cycle dark w =
     (Inr \<lparr>update_cycle = cycle, figure = None,
           plots = map (\<lambda>s. if s = ''reward'' then RewardPlot
                              else if prefix ''action_'' s then ActionPlot s
                              else StatePlot s) tags,
           dark_mode = dark\<rparr>,
      emit Plt_ion w)"
  by (simp add: init_def add_plots_strings)

lemma add_plots_stores_classes:
  "add_plots xs acc = Inr ps \<Longrightarrow> Supplied x \<in> set ps \<Longrightarrow>
   Supplied x \<in> set acc \<or> (\<exists>c. x = Class c \<and> issubclass_of c MotorDashboardPlot)"
  by (induction xs acc arbitrary: ps rule: add_plots.induct)
     (auto split: if_splits sum.splits)

lemma init_stores_classes:
  "init xs cycle dark w = (Inr d, w') \<Longrightarrow> Supplied x \<in> set (plots d) \<Longrightarrow> \<exists>c. x = Class c"
  by (auto simp: init_def Let_def split: sum.splits dest: add_plots_stores_classes)

lemma binds_tags [simp]:
  "list_all binds (map (\<lambda>s. if s = ''reward'' then RewardPlot
                              else if prefix ''action_'' s then ActionPlot s
                              else StatePlot s) tags)"
  by (induction tags) simp_all

lemma initialize_empty:
  "plots d = [] \<Longrightarrow>
   initialize d w = (Inl (AssertionError ''no plot variable selected''), d, emit Plt_close w)"
  by (simp add: initialize_def)

lemma initialize_nonempty:
  "plots d \<noteq> [] \<Longrightarrow>
   initialize d w =
     (if list_all binds (plots d) then Inr () else Inl TypeError,
      d\<lparr>figure := Some (Figure (length (plots d)))\<rparr>,
      w\<lparr>events := events w @ [Plt_close]
           @ (if dark_mode d then [Plt_style_use ''dark_background''] else [])
           @ [Plt_subplots (length (plots d)),
              Fig_subplots_adjust (Figure (length (plots d))),
              Plt_xlabel ''t/s'']
           @ map (\<lambda>(p, a). Plot_initialize p (Single a))
               (takeWhile (\<lambda>x. binds (fst x)) (zip (plots d) (map Axes [0..<length (plots d)])))
           @ (if list_all binds (plots d) then [Plt_pause] else [])\<rparr>)"
proof (cases "plots d")
  case Nil
  assume "plots d \<noteq> []"
  with Nil show ?thesis by simp
next
  case (Cons p ps)
  show ?thesis
  proof (cases ps)
    case Nil
    with Cons show ?thesis
      by (simp add: initialize_def plt_subplots_def emit_def plot_call_def)
  next
    case (Cons q qs)
    have len: "length (p # q # qs) = length (map Axes [0..<length (p # q # qs)])" by simp
    note all = list_all_fst_zip [OF len, of binds]
    from Cons \<open>plots d = p # ps\<close> have pd: "plots d = p # q # qs" by simp
    show ?thesis
      using all pd
      by (simp add: initialize_def plt_subplots_def emit_def for_each_eq Let_def del: upt_Suc)
  qed
qed

lemma update_with_figure:
  "figure d = Some fig \<Longrightarrow> list_all binds (plots d) \<Longrightarrow>
   update d w =
     (Inr (), d,
      w\<lparr>events := events w @ map Plot_update (plots d)
           @ (if backend w = ''NbAgg'' then [Canvas_draw fig] else [])
           @ [Canvas_flush_events fig]\<rparr>)"
  by (simp add: update_def for_each_bound emit_def)

lemma update_without_figure:
  "figure d = None \<Longrightarrow> list_all binds (plots d) \<Longrightarrow>
   update d w = (Inl AttributeError, d, w\<lparr>events := events w @ map Plot_update (plots d)\<rparr>)"
  by (simp add: update_def for_each_bound)

lemma update_unbound:
  "\<not> list_all binds (plots d) \<Longrightarrow>
   update d w =
     (Inl TypeError, d, w\<lparr>events := events w @ map Plot_update (takeWhile binds (plots d))\<rparr>)"
  by (simp add: update_def for_each_eq)

lemma step_with_figure:
  "figure d = Some fig \<Longrightarrow>
   step k state reference action reward done d w =
     (if \<not> list_all binds (plots d) then
        (Inl TypeError, d,
         w\<lparr>events := events w
              @ map (\<lambda>p. Plot_step p k state reference action reward done)
                  (takeWhile binds (plots d))\<rparr>)
      else if update_cycle d = 0 then
        (Inl ZeroDivisionError, d,
         w\<lparr>events := events w
              @ map (\<lambda>p. Plot_step p k state reference action reward done) (plots d)\<rparr>)
      else if (k + 1) mod update_cycle d = 0 then
        (Inr (), d,
         w\<lparr>events := events w
              @ map (\<lambda>p. Plot_step p k state reference action reward done) (plots d)
              @ map Plot_update (plots d)
              @ (if backend w = ''NbAgg'' then [Canvas_draw fig] else [])
              @ [Canvas_flush_events fig]\<rparr>)
      else
        (Inr (), d,
         w\<lparr>events := events w
              @ map (\<lambda>p. Plot_step p k state reference action reward done) (plots d)\<rparr>))"
  by (simp add: step_def update_with_figure for_each_eq takeWhile_all)

lemma step_without_plots:
  "figure d = None \<Longrightarrow> plots d = [] \<Longrightarrow>
   step k state reference action reward done d w =
     (Inl (AssertionError ''no plot variable selected''), d, emit Plt_close w)"
  by (simp add: step_def initialize_empty)

lemma initialize_bound:
  "plots d \<noteq> [] \<Longrightarrow> list_all binds (plots d) \<Longrightarrow>
   initialize d w =
     (Inr (), d\<lparr>figure := Some (Figure (length (plots d)))\<rparr>,
      w\<lparr>events := events w @ [Plt_close]
           @ (if dark_mode d then [Plt_style_use ''dark_background''] else [])
           @ [Plt_subplots (length (plots d)),
              Fig_subplots_adjust (Figure (length (plots d))),
              Plt_xlabel ''t/s'']
           @ map (\<lambda>(p, a). Plot_initialize p (Single a))
               (zip (plots d) (map Axes [0..<length (plots d)]))
           @ [Plt_pause]\<rparr>)"
  by (simp add: initialize_nonempty takeWhile_all list_all_fst_zip)

lemma step_first:
  "figure d = None \<Longrightarrow> plots d \<noteq> [] \<Longrightarrow> list_all binds (plots d) \<Longrightarrow>
   step k state reference action reward done d w =
     step k state reference action reward done
       (d\<lparr>figure := Some (Figure (length (plots d)))\<rparr>)
       (w\<lparr>events := events w @ [Plt_close]
           @ (if dark_mode d then [Plt_style_use ''dark_background''] else [])
           @ [Plt_subplots (length (plots d)),
              Fig_subplots_adjust (Figure (length (plots d))),
              Plt_xlabel ''t/s'']
           @ map (\<lambda>(p, a). Plot_initialize p (Single a))
               (zip (plots d) (map Axes [0..<length (plots d)]))
           @ [Plt_pause]\<rparr>)"
  by (simp add: step_def initialize_bound)

lemma step_first_unbound:
  "figure d = None \<Longrightarrow> plots d \<noteq> [] \<Longrightarrow> \<not> list_all binds (plots d) \<Longrightarrow>
   step k state reference action reward done d w =
     (Inl TypeError, d\<lparr>figure := Some (Figure (length (plots d)))\<rparr>,
      w\<lparr>events := events w @ [Plt_close]
           @ (if dark_mode d then [Plt_style_use ''dark_background''] else [])
           @ [Plt_subplots (length (plots d)),
              Fig_subplots_adjust (Figure (length (plots d))),
              Plt_xlabel ''t/s'']
           @ map (\<lambda>(p, a). Plot_initialize p (Single a))
               (takeWhile (\<lambda>x. binds (fst x)) (zip (plots d) (map Axes [0..<length (plots d)])))\<rparr>)"
  by (simp add: step_def initialize_nonempty)

lemma redraws_append [simp]:
  "redraws (w\<lparr>events := events w @ es\<rparr>) = redraws w + length (filter is_flush es)"
  by (simp add: redraws_def)

lemma surfaces_append [simp]:
  "surfaces_created (w\<lparr>events := events w @ es\<rparr>) = surfaces_created w + length (filter is_subplots es)"
  by (simp add: surfaces_created_def)

lemma no_flush_in_step_calls [simp]:
  "filter is_flush (map (\<lambda>p. Plot_step p k state reference action reward done) ps) = []"
  by (induction ps) simp_all

lemma no_flush_in_update_calls [simp]: "filter is_flush (map Plot_update ps) = []"
  by (induction ps) simp_all

lemma no_flush_in_initialize_calls [simp]:
  "filter is_flush (map (\<lambda>(p, a). Plot_initialize p (Single a)) zs) = []"
  by (induction zs) auto

lemma no_subplots_in_step_calls [simp]:
  "filter is_subplots (map (\<lambda>p. Plot_step p k state reference action reward done) ps) = []"
  by (induction ps) simp_all

lemma no_subplots_in_update_calls [simp]: "filter is_subplots (map Plot_update ps) = []"
  by (induction ps) simp_all

lemma no_subplots_in_initialize_calls [simp]:
  "filter is_subplots (map (\<lambda>(p, a). Plot_initialize p (Single a)) zs) = []"
  by (induction zs) auto

subsection \<open>One call of step, and runs of calls\<close>

lemma reset_bound:
  "list_all binds (plots d) \<Longrightarrow>
   reset d w = (Inr (), d, w\<lparr>events := events w @ map Plot_reset (plots d)\<rparr>)"
  by (simp add: reset_def for_each_bound)

lemma step_ok_cases:
  assumes "update_cycle d \<noteq> 0" and "figure d \<noteq> None \<or> plots d \<noteq> []"
    and "list_all binds (plots d)"
  shows "\<exists>d' w' fig pre. step k state reference action reward done d w = (Inr (), d', w')
      \<and> figure d' = Some fig \<and> update_cycle d' = update_cycle d \<and> plots d' = plots d
      \<and> filter is_flush pre = []
      \<and> events w' = events w @ pre
           @ map (\<lambda>p. Plot_step p k state reference action reward done) (plots d)
           @ (if (k + 1) mod update_cycle d = 0
              then map Plot_update (plots d)
                   @ (if backend w = ''NbAgg'' then [Canvas_draw fig] else [])
                   @ [Canvas_flush_events fig]
              else [])
      \<and> redraws w' = redraws w + (if (k + 1) mod update_cycle d = 0 then 1 else 0)"
proof (cases "figure d")
  case (Some fig)
  let ?w' = "snd (snd (step k state reference action reward done d w))"
  show ?thesis
    apply (rule exI [of _ d])
    apply (rule exI [of _ ?w'])
    apply (rule exI [of _ fig])
    apply (rule exI [of _ "[]"])
    using assms(1,3) Some apply (simp add: step_with_figure)
    done
next
  case None
  with assms have ne: "plots d \<noteq> []" by simp
  let ?fig = "Figure (length (plots d))"
  let ?pre = "[Plt_close]
           @ (if dark_mode d then [Plt_style_use ''dark_background''] else [])
           @ [Plt_subplots (length (plots d)), Fig_subplots_adjust ?fig, Plt_xlabel ''t/s'']
           @ map (\<lambda>(p, a). Plot_initialize p (Single a))
               (zip (plots d) (map Axes [0..<length (plots d)]))
           @ [Plt_pause]"
  let ?w' = "snd (snd (step k state reference action reward done d w))"
  show ?thesis
    apply (rule exI [of _ "d\<lparr>figure := Some ?fig\<rparr>"])
    apply (rule exI [of _ ?w'])
    apply (rule exI [of _ ?fig])
    apply (rule exI [of _ ?pre])
    using assms(1,3) apply (simp add: step_first [OF None ne assms(3)] step_with_figure)
    done
qed

lemma step_never_attribute_error:
  "fst (step k state reference action reward done d w) \<noteq> Inl AttributeError"
proof (cases "figure d")
  case (Some fig)
  then show ?thesis by (simp add: step_with_figure)
next
  case None
  show ?thesis
  proof (cases "plots d = []")
    case True
    with None show ?thesis by (simp add: step_without_plots)
  next
    case False
    show ?thesis
    proof (cases "list_all binds (plots d)")
      case True
      show ?thesis by (simp add: step_first [OF None False True] step_with_figure)
    next
      case unbound: False
      show ?thesis by (simp add: step_first_unbound [OF None False unbound])
    qed
  qed
qed

lemma step_keeps_figure:
  assumes "figure d = Some fig"
  shows "\<exists>r d' w'. step k state reference action reward done d w = (r, d', w')
      \<and> d' = d \<and> surfaces_created w' = surfaces_created w"
  using assms by (simp add: step_with_figure)

lemma step_creates_figure:
  assumes "figure d = None" and "plots d \<noteq> []"
  shows "\<exists>r d' w'. step k state reference action reward done d w = (r, d', w')
      \<and> d' = d\<lparr>figure := Some (Figure (length (plots d)))\<rparr>
      \<and> surfaces_created w' = surfaces_created w + 1"
proof (cases "list_all binds (plots d)")
  case True
  then show ?thesis by (simp add: step_first [OF assms True] step_with_figure)
next
  case False
  then show ?thesis by (simp add: step_first_unbound [OF assms False])
qed

lemma step_without_plots_no_surface:
  assumes "plots d = []"
  shows "surfaces_created (snd (snd (step k state reference action reward done d w)))
           = surfaces_created w"
proof (cases "figure d")
  case None
  with assms show ?thesis by (simp add: step_without_plots emit_def)
next
  case (Some fig)
  then show ?thesis by (simp add: step_with_figure)
qed

lemma run_keeps_figure:
  assumes "figure d = Some fig"
  shows "\<exists>r d' w'. run calls d w = (r, d', w')
      \<and> d' = d \<and> surfaces_created w' = surfaces_created w"
  using assms
proof (induction calls arbitrary: w)
  case Nil
  then show ?case by simp
next
  case (Cons c calls)
  obtain k state reference action reward dn where c: "c = (k, state, reference, action, reward, dn)"
    by (cases c) auto
  from step_keeps_figure [OF Cons.prems, of k state reference action reward dn w]
  obtain r w1 where s: "step k state reference action reward dn d w = (r, d, w1)"
    and w1: "surfaces_created w1 = surfaces_created w"
    by blast
  show ?case
  proof (cases r)
    case (Inl e)
    with s w1 c show ?thesis by simp
  next
    case (Inr u)
    from Cons.IH [OF Cons.prems, of w1]
    obtain r' w' where "run calls d w1 = (r', d, w')" and "surfaces_created w' = surfaces_created w1"
      by blast
    with s w1 c Inr show ?thesis by simp
  qed
qed

lemma run_no_redraw:
  assumes "update_cycle d \<noteq> 0" and "figure d \<noteq> None \<or> plots d \<noteq> []"
    and "list_all binds (plots d)"
    and "\<forall>k \<in> set (map fst calls). (k + 1) mod update_cycle d \<noteq> 0"
  shows "\<exists>d' w'. run calls d w = (Inr (), d', w')
      \<and> update_cycle d' = update_cycle d \<and> (figure d' \<noteq> None \<or> plots d' \<noteq> [])
      \<and> plots d' = plots d \<and> redraws w' = redraws w"
  using assms
proof (induction calls arbitrary: d w)
  case Nil
  then show ?case by simp
next
  case (Cons c calls)
  obtain k state reference action reward dn where c: "c = (k, state, reference, action, reward, dn)"
    by (cases c) auto
  from Cons.prems(4) c have k: "(k + 1) mod update_cycle d \<noteq> 0" by simp
  from step_ok_cases [OF Cons.prems(1,2,3), of k state reference action reward dn w] k
  obtain d1 w1 fig where s: "step k state reference action reward dn d w = (Inr (), d1, w1)"
    and d1: "figure d1 = Some fig" "update_cycle d1 = update_cycle d" "plots d1 = plots d"
    and w1: "redraws w1 = redraws w"
    by auto
  have "\<exists>d' w'. run calls d1 w1 = (Inr (), d', w')
      \<and> update_cycle d' = update_cycle d1 \<and> (figure d' \<noteq> None \<or> plots d' \<noteq> [])
      \<and> plots d' = plots d1 \<and> redraws w' = redraws w1"
    using Cons.prems(1,3,4) d1 by (intro Cons.IH) simp_all
  with s d1 w1 c show ?case by simp
qed

section \<open>The constructor\<close>

text \<open>
  C5. The tag list \<^verbatim>\<open>["reward", "action_0", "speed"]\<close> gives exactly three plots, a
  reward plot, an action plot and a state plot, in that order. For every list of tags,
  each tag is resolved on its own and the plots stand in the order of the tags:
  \<^verbatim>\<open>"reward"\<close> gives a \<^verbatim>\<open>RewardPlot\<close>, a tag that starts with \<^verbatim>\<open>"action_"\<close> an
  \<^verbatim>\<open>ActionPlot\<close>, any other tag a \<^verbatim>\<open>StatePlot\<close>.
\<close>

theorem init_resolves_tags_in_order:
  "init [Str ''reward'', Str ''action_0'', Str ''speed''] cycle dark w =
     (Inr \<lparr>update_cycle = cycle, figure = None,
           plots = [RewardPlot, ActionPlot ''action_0'', StatePlot ''speed''],
           dark_mode = dark\<rparr>,
      emit Plt_ion w)
   \<and> (\<forall>tags. init (map Str tags) cycle dark w =
        (Inr \<lparr>update_cycle = cycle, figure = None,
              plots = map (\<lambda>s. if s = ''reward'' then RewardPlot
                                 else if prefix ''action_'' s then ActionPlot s
                                 else StatePlot s) tags,
              dark_mode = dark\<rparr>,
         emit Plt_ion w))"
proof -
  have general: "init (map Str tags) cycle dark w =
        (Inr \<lparr>update_cycle = cycle, figure = None,
              plots = map (\<lambda>s. if s = ''reward'' then RewardPlot
                                 else if prefix ''action_'' s then ActionPlot s
                                 else StatePlot s) tags,
              dark_mode = dark\<rparr>,
         emit Plt_ion w)" for tags
    by (simp add: init_def add_plots_strings)
  from general [of "[''reward'', ''action_0'', ''speed'']"] general
  show ?thesis by simp
qed

text \<open>
  C2, at the input where the constructor departs from its docstring ("each element may
  either be a string or an already instantiated MotorDashboardPlot"): an instance of
  \<^verbatim>\<open>RewardPlot\<close> is not a class, so \<^verbatim>\<open>issubclass\<close> raises \<^verbatim>\<open>TypeError\<close> and the
  constructor fails. The class object \<^verbatim>\<open>RewardPlot\<close> itself passes the test and is
  appended uninstantiated.
\<close>

theorem init_instance_raises:
  "init [Instance RewardPlot_class] cycle dark w = (Inl TypeError, emit Plt_ion w)
   \<and> init [Class RewardPlot_class] cycle dark w =
       (Inr \<lparr>update_cycle = cycle, figure = None,
             plots = [Supplied (Class RewardPlot_class)], dark_mode = dark\<rparr>,
        emit Plt_ion w)"
  by (simp add: init_def RewardPlot_class_def MotorDashboardPlot_def)

text \<open>
  C4. The constructor accepts the empty list: it returns a dashboard with no plot and no
  figure. \<^verbatim>\<open>reset\<close> and \<^verbatim>\<open>set_modules\<close> on that dashboard return normally. A
  \<^verbatim>\<open>step\<close> on it raises the assertion of \<^verbatim>\<open>_initialize\<close>, "no plot variable selected",
  after \<^verbatim>\<open>plt.close()\<close> and before any figure is made.
\<close>

theorem init_empty_then_step_asserts:
  "init [] cycle dark w =
     (Inr \<lparr>update_cycle = cycle, figure = None, plots = [], dark_mode = dark\<rparr>, emit Plt_ion w)
   \<and> step k state reference action reward done
        \<lparr>update_cycle = cycle, figure = None, plots = [], dark_mode = dark\<rparr> w' =
       (Inl (AssertionError ''no plot variable selected''),
        \<lparr>update_cycle = cycle, figure = None, plots = [], dark_mode = dark\<rparr>,
        emit Plt_close w')
   \<and> reset \<lparr>update_cycle = cycle, figure = None, plots = [], dark_mode = dark\<rparr> w' =
       (Inr (), \<lparr>update_cycle = cycle, figure = None, plots = [], dark_mode = dark\<rparr>, w')
   \<and> set_modules ps rg rf \<lparr>update_cycle = cycle, figure = None, plots = [], dark_mode = dark\<rparr> w' =
       (Inr (), \<lparr>update_cycle = cycle, figure = None, plots = [], dark_mode = dark\<rparr>, w')"
  by (simp add: init_def step_def initialize_def reset_def set_modules_def)

text \<open>
  C10. A string is never checked against the state names. A string that is not
  \<^verbatim>\<open>"reward"\<close> and does not start with \<^verbatim>\<open>"action_"\<close> is appended as a \<^verbatim>\<open>StatePlot\<close>
  wherever it stands in the list, and the constructor returns a dashboard, with one plot
  per tag, for every list of strings.
\<close>

theorem init_accepts_any_string:
  assumes "s \<noteq> ''reward''" and "\<not> prefix ''action_'' s"
  shows "add_plots (Str s # rest) acc = add_plots rest (acc @ [StatePlot s])
    \<and> init [Str s] cycle dark w =
        (Inr \<lparr>update_cycle = cycle, figure = None, plots = [StatePlot s], dark_mode = dark\<rparr>,
         emit Plt_ion w)
    \<and> (\<forall>tags. \<exists>d. init (map Str tags) cycle dark w = (Inr d, emit Plt_ion w)
          \<and> length (plots d) = length tags)"
proof -
  have "add_plots (Str s # rest) acc = add_plots rest (acc @ [StatePlot s])"
    using assms by simp
  moreover have "init [Str s] cycle dark w =
        (Inr \<lparr>update_cycle = cycle, figure = None, plots = [StatePlot s], dark_mode = dark\<rparr>,
         emit Plt_ion w)"
    using assms init_strings [of "[s]" cycle dark w] by simp
  moreover have "\<exists>d. init (map Str tags) cycle dark w = (Inr d, emit Plt_ion w)
          \<and> length (plots d) = length tags" for tags
    by (simp add: init_strings)
  ultimately show ?thesis by blast
qed

theorem init_accepts_any_string_witness:
  "''sped'' \<noteq> ''reward'' \<and> \<not> prefix ''action_'' ''sped''
    \<and> add_plots [Str ''sped'', Str ''reward''] [] = add_plots [Str ''reward''] [StatePlot ''sped'']
    \<and> init [Str ''sped''] 0 False \<lparr>backend = ''TkAgg'', events = []\<rparr> =
        (Inr \<lparr>update_cycle = 0, figure = None, plots = [StatePlot ''sped''], dark_mode = False\<rparr>,
         emit Plt_ion \<lparr>backend = ''TkAgg'', events = []\<rparr>)"
  using init_accepts_any_string [of "''sped''" "[Str ''reward'']" "[]" 0 False
      "\<lparr>backend = ''TkAgg'', events = []\<rparr>"]
  by simp

section \<open>reset\<close>

text \<open>
  C6, at the input where \<^verbatim>\<open>reset\<close> raises. The constructor accepts the class object
  \<^verbatim>\<open>RewardPlot\<close> and stores it uninstantiated (the defect shown under C2). On that
  dashboard, before any \<^verbatim>\<open>step\<close>, \<^verbatim>\<open>reset\<close> raises \<^verbatim>\<open>TypeError\<close> at its first
  \<^verbatim>\<open>plot.reset()\<close>. On a dashboard whose plots all bind, \<open>reset_bound\<close> above gives
  the calls it makes, in order, and its normal return.
\<close>

theorem reset_raises_on_class_plot:
  "init [Class RewardPlot_class] cycle dark v =
     (Inr \<lparr>update_cycle = cycle, figure = None,
           plots = [Supplied (Class RewardPlot_class)], dark_mode = dark\<rparr>,
      emit Plt_ion v)
   \<and> reset \<lparr>update_cycle = cycle, figure = None,
             plots = [Supplied (Class RewardPlot_class)], dark_mode = dark\<rparr> w =
       (Inl TypeError,
        \<lparr>update_cycle = cycle, figure = None,
          plots = [Supplied (Class RewardPlot_class)], dark_mode = dark\<rparr>,
        w)"
  by (simp add: init_def reset_def plot_call_def RewardPlot_class_def MotorDashboardPlot_def)

section \<open>Creating the figure\<close>

text \<open>
  C7. With exactly one plot, \<^verbatim>\<open>plt.subplots(1, sharex=True)\<close> returns a single
  \<^verbatim>\<open>Axes\<close>, which cannot be iterated. \<^verbatim>\<open>_initialize\<close> hands it to the plot directly:
  when the call on the plot binds, \<^verbatim>\<open>_initialize\<close> returns normally and the first
  \<^verbatim>\<open>step\<close> does not raise a \<^verbatim>\<open>TypeError\<close>. When the one plot is a class object, the
  call on it raises \<^verbatim>\<open>TypeError\<close> after the figure was stored. With two or more plots
  that bind, the result of \<^verbatim>\<open>plt.subplots\<close> is an array, and each plot gets its own
  element of it.
\<close>

theorem initialize_single_plot:
  "(binds p \<longrightarrow>
      initialize (d\<lparr>plots := [p]\<rparr>) w =
        (Inr (), d\<lparr>plots := [p], figure := Some (Figure 1)\<rparr>,
         w\<lparr>events := events w @ [Plt_close]
              @ (if dark_mode d then [Plt_style_use ''dark_background''] else [])
              @ [Plt_subplots 1, Fig_subplots_adjust (Figure 1), Plt_xlabel ''t/s'',
                 Plot_initialize p (Single (Axes 0)), Plt_pause]\<rparr>)
      \<and> fst (step k state reference action reward done (d\<lparr>plots := [p], figure := None\<rparr>) w)
          \<noteq> Inl TypeError)
   \<and> initialize (d\<lparr>plots := [Supplied (Class c)]\<rparr>) w =
        (Inl TypeError, d\<lparr>plots := [Supplied (Class c)], figure := Some (Figure 1)\<rparr>,
         w\<lparr>events := events w @ [Plt_close]
              @ (if dark_mode d then [Plt_style_use ''dark_background''] else [])
              @ [Plt_subplots 1, Fig_subplots_adjust (Figure 1), Plt_xlabel ''t/s'']\<rparr>)
   \<and> plt_subplots 1 = Inr (Figure 1, Single (Axes 0))
   \<and> iter_axes (Single (Axes 0)) = Inl TypeError
   \<and> plt_subplots (length (p # q # ps)) =
       Inr (Figure (length (p # q # ps)), Array (map Axes [0..<length (p # q # ps)]))
   \<and> (list_all binds (p # q # ps) \<longrightarrow>
       initialize (d\<lparr>plots := p # q # ps\<rparr>) w =
        (Inr (), d\<lparr>plots := p # q # ps, figure := Some (Figure (length (p # q # ps)))\<rparr>,
         w\<lparr>events := events w @ [Plt_close]
              @ (if dark_mode d then [Plt_style_use ''dark_background''] else [])
              @ [Plt_subplots (length (p # q # ps)),
                 Fig_subplots_adjust (Figure (length (p # q # ps))),
                 Plt_xlabel ''t/s'']
              @ map (\<lambda>(x, a). Plot_initialize x (Single a))
                  (zip (p # q # ps) (map Axes [0..<length (p # q # ps)]))
              @ [Plt_pause]\<rparr>))"
proof -
  have single: "initialize (d\<lparr>plots := [p]\<rparr>) w =
        (Inr (), d\<lparr>plots := [p], figure := Some (Figure 1)\<rparr>,
         w\<lparr>events := events w @ [Plt_close]
              @ (if dark_mode d then [Plt_style_use ''dark_background''] else [])
              @ [Plt_subplots 1, Fig_subplots_adjust (Figure 1), Plt_xlabel ''t/s'',
                 Plot_initialize p (Single (Axes 0)), Plt_pause]\<rparr>)" if "binds p"
    using that by (simp add: initialize_def plt_subplots_def emit_def plot_call_def)
  have first: "fst (step k state reference action reward done (d\<lparr>plots := [p], figure := None\<rparr>) w)
          \<noteq> Inl TypeError" if "binds p"
    using that
    by (simp add: step_def initialize_def plt_subplots_def emit_def plot_call_def update_def
        Let_def)
  have unbound: "initialize (d\<lparr>plots := [Supplied (Class c)]\<rparr>) w =
        (Inl TypeError, d\<lparr>plots := [Supplied (Class c)], figure := Some (Figure 1)\<rparr>,
         w\<lparr>events := events w @ [Plt_close]
              @ (if dark_mode d then [Plt_style_use ''dark_background''] else [])
              @ [Plt_subplots 1, Fig_subplots_adjust (Figure 1), Plt_xlabel ''t/s'']\<rparr>)"
    by (simp add: initialize_def plt_subplots_def emit_def plot_call_def)
  have lib: "plt_subplots 1 = Inr (Figure 1, Single (Axes 0))"
    "iter_axes (Single (Axes 0)) = Inl TypeError"
    "plt_subplots (length (p # q # ps)) =
       Inr (Figure (length (p # q # ps)), Array (map Axes [0..<length (p # q # ps)]))"
    by (simp_all add: plt_subplots_def)
  have many: "initialize (d\<lparr>plots := p # q # ps\<rparr>) w =
        (Inr (), d\<lparr>plots := p # q # ps, figure := Some (Figure (length (p # q # ps)))\<rparr>,
         w\<lparr>events := events w @ [Plt_close]
              @ (if dark_mode d then [Plt_style_use ''dark_background''] else [])
              @ [Plt_subplots (length (p # q # ps)),
                 Fig_subplots_adjust (Figure (length (p # q # ps))),
                 Plt_xlabel ''t/s'']
              @ map (\<lambda>(x, a). Plot_initialize x (Single a))
                  (zip (p # q # ps) (map Axes [0..<length (p # q # ps)]))
              @ [Plt_pause]\<rparr>)" if "list_all binds (p # q # ps)"
  proof -
    have ne: "plots (d\<lparr>plots := p # q # ps\<rparr>) \<noteq> []" by simp
    from that have b: "list_all binds (plots (d\<lparr>plots := p # q # ps\<rparr>))" by simp
    from initialize_bound [OF ne b, of w] show ?thesis by simp
  qed
  from single first unbound lib many show ?thesis by blast
qed

theorem initialize_single_plot_witness:
  "(let d = \<lparr>update_cycle = 3, figure = None, plots = [], dark_mode = False\<rparr>;
        w = \<lparr>backend = ''TkAgg'', events = [Plt_ion]\<rparr>
    in binds (StatePlot ''omega'')
       \<and> list_all binds [RewardPlot, ActionPlot ''action_0'', StatePlot ''omega'']
       \<and> initialize (d\<lparr>plots := [StatePlot ''omega'']\<rparr>) w =
           (Inr (), d\<lparr>plots := [StatePlot ''omega''], figure := Some (Figure 1)\<rparr>,
            w\<lparr>events := [Plt_ion, Plt_close, Plt_subplots 1, Fig_subplots_adjust (Figure 1),
                           Plt_xlabel ''t/s'',
                           Plot_initialize (StatePlot ''omega'') (Single (Axes 0)), Plt_pause]\<rparr>)
       \<and> fst (step 0 [] [] None None False (d\<lparr>plots := [StatePlot ''omega''], figure := None\<rparr>) w)
           \<noteq> Inl TypeError
       \<and> initialize (d\<lparr>plots := [RewardPlot, ActionPlot ''action_0'', StatePlot ''omega'']\<rparr>) w =
           (Inr (),
            d\<lparr>plots := [RewardPlot, ActionPlot ''action_0'', StatePlot ''omega''],
              figure := Some (Figure 3)\<rparr>,
            w\<lparr>events := [Plt_ion, Plt_close, Plt_subplots 3, Fig_subplots_adjust (Figure 3),
                           Plt_xlabel ''t/s'',
                           Plot_initialize RewardPlot (Single (Axes 0)),
                           Plot_initialize (ActionPlot ''action_0'') (Single (Axes 1)),
                           Plot_initialize (StatePlot ''omega'') (Single (Axes 2)),
                           Plt_pause]\<rparr>))"
proof -
  let ?d = "\<lparr>update_cycle = 3, figure = None, plots = [], dark_mode = False\<rparr>"
  let ?w = "\<lparr>backend = ''TkAgg'', events = [Plt_ion]\<rparr>"
  have h: "binds (StatePlot ''omega'')"
    "list_all binds [RewardPlot, ActionPlot ''action_0'', StatePlot ''omega'']"
    by simp_all
  note one = initialize_single_plot
    [of "StatePlot ''omega''" ?d ?w 0 "[]" "[]" None None False RewardPlot_class
        "ActionPlot ''action_0''" "[]"]
  note many = initialize_single_plot
    [of RewardPlot ?d ?w 0 "[]" "[]" None None False RewardPlot_class
        "ActionPlot ''action_0''" "[StatePlot ''omega'']"]
  from one h(1) have a: "initialize (?d\<lparr>plots := [StatePlot ''omega'']\<rparr>) ?w =
           (Inr (), ?d\<lparr>plots := [StatePlot ''omega''], figure := Some (Figure 1)\<rparr>,
            ?w\<lparr>events := [Plt_ion, Plt_close, Plt_subplots 1, Fig_subplots_adjust (Figure 1),
                           Plt_xlabel ''t/s'',
                           Plot_initialize (StatePlot ''omega'') (Single (Axes 0)), Plt_pause]\<rparr>)"
    by simp
  from one h(1) have b:
    "fst (step 0 [] [] None None False (?d\<lparr>plots := [StatePlot ''omega''], figure := None\<rparr>) ?w)
           \<noteq> Inl TypeError"
    by blast
  from many h(2) have c:
    "initialize (?d\<lparr>plots := [RewardPlot, ActionPlot ''action_0'', StatePlot ''omega'']\<rparr>) ?w =
           (Inr (),
            ?d\<lparr>plots := [RewardPlot, ActionPlot ''action_0'', StatePlot ''omega''],
              figure := Some (Figure 3)\<rparr>,
            ?w\<lparr>events := [Plt_ion, Plt_close, Plt_subplots 3, Fig_subplots_adjust (Figure 3),
                           Plt_xlabel ''t/s'',
                           Plot_initialize RewardPlot (Single (Axes 0)),
                           Plot_initialize (ActionPlot ''action_0'') (Single (Axes 1)),
                           Plot_initialize (StatePlot ''omega'') (Single (Axes 2)),
                           Plt_pause]\<rparr>)"
    by (simp add: upt_rec numeral_3_eq_3 numeral_2_eq_2)
  from h a b c show ?thesis unfolding Let_def by blast
qed

text \<open>
  C3. After construction the figure is absent. On a dashboard with at least one plot the
  first \<^verbatim>\<open>step\<close> makes the figure, with one \<^verbatim>\<open>plt.subplots\<close> call; a \<^verbatim>\<open>step\<close> on a
  dashboard that has its figure leaves the dashboard as it is and makes no figure; so any
  run of one or more \<^verbatim>\<open>step\<close> calls from a fresh dashboard makes exactly one figure.
  Whenever a \<^verbatim>\<open>step\<close> makes a figure, the dashboard holds at least one plot.
\<close>

theorem figure_created_once_on_first_step:
  "(\<forall>d0 w1. init plots_arg cycle dark w0 = (Inr d0, w1) \<longrightarrow> figure d0 = None)
   \<and> (figure d = None \<longrightarrow> plots d \<noteq> [] \<longrightarrow>
        (\<exists>r d' w'. step k state reference action reward done d w = (r, d', w')
           \<and> figure d' = Some (Figure (length (plots d)))
           \<and> surfaces_created w' = surfaces_created w + 1))
   \<and> (\<forall>fig. figure e = Some fig \<longrightarrow>
        (\<exists>r w'. step k state reference action reward done e w = (r, e, w')
           \<and> surfaces_created w' = surfaces_created w))
   \<and> (figure d = None \<longrightarrow> plots d \<noteq> [] \<longrightarrow> calls \<noteq> [] \<longrightarrow>
        (\<exists>r d' w'. run calls d w = (r, d', w')
           \<and> figure d' = Some (Figure (length (plots d)))
           \<and> surfaces_created w' = surfaces_created w + 1))
   \<and> (surfaces_created (snd (snd (step k state reference action reward done d w)))
          \<noteq> surfaces_created w \<longrightarrow> 1 \<le> length (plots d))"
proof (intro conjI allI impI)
  fix d0 w1
  assume "init plots_arg cycle dark w0 = (Inr d0, w1)"
  then show "figure d0 = None"
    by (auto simp: init_def Let_def split: sum.splits)
next
  assume a: "figure d = None" "plots d \<noteq> []"
  from step_creates_figure [OF a, of k state reference action reward "done" w]
  show "\<exists>r d' w'. step k state reference action reward done d w = (r, d', w')
           \<and> figure d' = Some (Figure (length (plots d)))
           \<and> surfaces_created w' = surfaces_created w + 1"
    by auto
next
  fix fig
  assume "figure e = Some fig"
  from step_keeps_figure [OF this, of k state reference action reward "done" w]
  show "\<exists>r w'. step k state reference action reward done e w = (r, e, w')
           \<and> surfaces_created w' = surfaces_created w"
    by auto
next
  assume a: "figure d = None" "plots d \<noteq> []" and ne: "calls \<noteq> []"
  from ne obtain c rest where calls: "calls = c # rest" by (cases calls) auto
  obtain k' state' reference' action' reward' dn where c: "c = (k', state', reference', action', reward', dn)"
    by (cases c) auto
  let ?d = "d\<lparr>figure := Some (Figure (length (plots d)))\<rparr>"
  from step_creates_figure [OF a, of k' state' reference' action' reward' dn w]
  obtain r w1 where s: "step k' state' reference' action' reward' dn d w = (r, ?d, w1)"
    and w1: "surfaces_created w1 = surfaces_created w + 1"
    by blast
  show "\<exists>r d' w'. run calls d w = (r, d', w')
           \<and> figure d' = Some (Figure (length (plots d)))
           \<and> surfaces_created w' = surfaces_created w + 1"
  proof (cases r)
    case (Inl err)
    with s w1 c calls show ?thesis by simp
  next
    case (Inr u)
    have "figure ?d = Some (Figure (length (plots d)))" by simp
    from run_keeps_figure [OF this, of rest w1]
    obtain r' w' where "run rest ?d w1 = (r', ?d, w')" and "surfaces_created w' = surfaces_created w1"
      by blast
    with s w1 c calls Inr show ?thesis by simp
  qed
next
  assume changed: "surfaces_created (snd (snd (step k state reference action reward done d w)))
          \<noteq> surfaces_created w"
  have "plots d \<noteq> []"
  proof
    assume "plots d = []"
    from step_without_plots_no_surface [OF this, of k state reference action reward "done" w] changed
    show False by simp
  qed
  then show "1 \<le> length (plots d)" by (cases "plots d") simp_all
qed

theorem figure_created_once_on_first_step_witness:
  "(let w0 = \<lparr>backend = ''TkAgg'', events = []\<rparr>;
        w = \<lparr>backend = ''TkAgg'', events = [Plt_ion]\<rparr>;
        d = \<lparr>update_cycle = 3, figure = None, plots = [RewardPlot, StatePlot ''omega''],
             dark_mode = True\<rparr>;
        e = \<lparr>update_cycle = 3, figure = Some (Figure 2), plots = [RewardPlot, StatePlot ''omega''],
             dark_mode = True\<rparr>;
        calls = [(0, [], [], None, None, False), (1, [1], [2], Some [3], Some 4, False),
                 (2, [1], [2], Some [3], Some 4, True)]
    in init [Str ''reward'', Str ''omega''] 3 True w0 = (Inr d, w)
       \<and> figure d = None \<and> plots d \<noteq> [] \<and> calls \<noteq> [] \<and> figure e = Some (Figure 2)
       \<and> (\<exists>r d' w'. step 0 [] [] None None False d w = (r, d', w')
             \<and> figure d' = Some (Figure 2) \<and> surfaces_created w' = surfaces_created w + 1)
       \<and> (\<exists>r w'. step 0 [] [] None None False e w = (r, e, w')
             \<and> surfaces_created w' = surfaces_created w)
       \<and> (\<exists>r d' w'. run calls d w = (r, d', w')
             \<and> figure d' = Some (Figure 2) \<and> surfaces_created w' = surfaces_created w + 1)
       \<and> surfaces_created (snd (snd (step 0 [] [] None None False d w))) \<noteq> surfaces_created w
       \<and> 1 \<le> length (plots d))"
proof -
  let ?v = "\<lparr>backend = ''TkAgg'', events = []\<rparr>"
  let ?w = "\<lparr>backend = ''TkAgg'', events = [Plt_ion]\<rparr>"
  let ?d = "\<lparr>update_cycle = 3, figure = None, plots = [RewardPlot, StatePlot ''omega''],
             dark_mode = True\<rparr>"
  let ?e = "\<lparr>update_cycle = 3, figure = Some (Figure 2), plots = [RewardPlot, StatePlot ''omega''],
             dark_mode = True\<rparr>"
  let ?calls = "[(0, [], [], None, None, False), (1, [1], [2], Some [3], Some 4, False),
                 (2, [1], [2], Some [3], Some 4, True)] :: step_args list"
  have i: "init [Str ''reward'', Str ''omega''] 3 True ?v = (Inr ?d, ?w)"
    by (simp add: init_def emit_def)
  have h: "figure ?d = None" "plots ?d \<noteq> []" "?calls \<noteq> []" "figure ?e = Some (Figure 2)"
    by simp_all
  note t = figure_created_once_on_first_step
    [of "[Str ''reward'', Str ''omega'']" 3 True ?v ?d 0 "[]" "[]" None None False ?w ?e ?calls]
  from t h have first: "\<exists>r d' w'. step 0 [] [] None None False ?d ?w = (r, d', w')
             \<and> figure d' = Some (Figure 2) \<and> surfaces_created w' = surfaces_created ?w + 1"
    by (simp add: numeral_2_eq_2)
  from t h have later: "\<exists>r w'. step 0 [] [] None None False ?e ?w = (r, ?e, w')
             \<and> surfaces_created w' = surfaces_created ?w"
    by blast
  from t h have whole: "\<exists>r d' w'. run ?calls ?d ?w = (r, d', w')
             \<and> figure d' = Some (Figure 2) \<and> surfaces_created w' = surfaces_created ?w + 1"
    by (simp add: numeral_2_eq_2)
  from first have changed:
    "surfaces_created (snd (snd (step 0 [] [] None None False ?d ?w))) \<noteq> surfaces_created ?w"
    by auto
  with t have "1 \<le> length (plots ?d)" by blast
  with i h first later whole changed show ?thesis unfolding Let_def by blast
qed

text \<open>
  C8. \<^verbatim>\<open>step\<close> never raises the \<^verbatim>\<open>AttributeError\<close> that \<^verbatim>\<open>_update\<close> raises on an
  absent figure, whatever the dashboard. When \<^verbatim>\<open>step\<close> gets to \<^verbatim>\<open>_update\<close>, the
  dashboard it passes has its figure, and \<^verbatim>\<open>_update\<close> returns normally. On the first
  \<^verbatim>\<open>step\<close> of a dashboard whose plots bind, the figure is made and every plot is
  initialized on its axes before the first plot receives the step data. On the first
  \<^verbatim>\<open>step\<close> of a dashboard with a plot that does not bind, \<^verbatim>\<open>_initialize\<close> raises
  \<^verbatim>\<open>TypeError\<close> and no plot receives step data at all.
\<close>

theorem update_runs_with_figure:
  "fst (step k state reference action reward done d w) \<noteq> Inl AttributeError
   \<and> (list_all binds (plots d) \<longrightarrow>
        fst (update (d\<lparr>figure := None\<rparr>) w) = Inl AttributeError)
   \<and> (update_cycle d \<noteq> 0 \<longrightarrow> (k + 1) mod update_cycle d = 0 \<longrightarrow>
        figure d \<noteq> None \<or> plots d \<noteq> [] \<longrightarrow> list_all binds (plots d) \<longrightarrow>
        (\<exists>d1 w1 fig. step k state reference action reward done d w = update d1 w1
            \<and> figure d1 = Some fig \<and> fst (update d1 w1) = Inr ()))
   \<and> (figure d = None \<longrightarrow> plots d \<noteq> [] \<longrightarrow> list_all binds (plots d) \<longrightarrow>
        (\<exists>r d' w' rest. step k state reference action reward done d w = (r, d', w')
            \<and> figure d' = Some (Figure (length (plots d)))
            \<and> events w' = events w @ [Plt_close]
                 @ (if dark_mode d then [Plt_style_use ''dark_background''] else [])
                 @ [Plt_subplots (length (plots d)),
                    Fig_subplots_adjust (Figure (length (plots d))),
                    Plt_xlabel ''t/s'']
                 @ map (\<lambda>(p, a). Plot_initialize p (Single a))
                     (zip (plots d) (map Axes [0..<length (plots d)]))
                 @ [Plt_pause]
                 @ map (\<lambda>p. Plot_step p k state reference action reward done) (plots d)
                 @ rest))
   \<and> (figure e = None \<longrightarrow> plots e \<noteq> [] \<longrightarrow> \<not> list_all binds (plots e) \<longrightarrow>
        step k state reference action reward done e w =
          (Inl TypeError, e\<lparr>figure := Some (Figure (length (plots e)))\<rparr>,
           w\<lparr>events := events w @ [Plt_close]
                @ (if dark_mode e then [Plt_style_use ''dark_background''] else [])
                @ [Plt_subplots (length (plots e)),
                   Fig_subplots_adjust (Figure (length (plots e))),
                   Plt_xlabel ''t/s'']
                @ map (\<lambda>(p, a). Plot_initialize p (Single a))
                    (takeWhile (\<lambda>x. binds (fst x))
                       (zip (plots e) (map Axes [0..<length (plots e)])))\<rparr>))"
proof (intro conjI impI)
  show "fst (step k state reference action reward done d w) \<noteq> Inl AttributeError"
    by (rule step_never_attribute_error)
next
  assume "list_all binds (plots d)"
  then show "fst (update (d\<lparr>figure := None\<rparr>) w) = Inl AttributeError"
    by (simp add: update_without_figure)
next
  assume uc: "update_cycle d \<noteq> 0" and k: "(k + 1) mod update_cycle d = 0"
    and pre: "figure d \<noteq> None \<or> plots d \<noteq> []" and b: "list_all binds (plots d)"
  let ?steps = "map (\<lambda>p. Plot_step p k state reference action reward done) (plots d)"
  show "\<exists>d1 w1 fig. step k state reference action reward done d w = update d1 w1
            \<and> figure d1 = Some fig \<and> fst (update d1 w1) = Inr ()"
  proof (cases "figure d")
    case (Some fig)
    show ?thesis
      apply (rule exI [of _ d])
      apply (rule exI [of _ "w\<lparr>events := events w @ ?steps\<rparr>"])
      apply (rule exI [of _ fig])
      using uc k b Some apply (simp add: step_with_figure update_with_figure)
      done
  next
    case None
    with pre have ne: "plots d \<noteq> []" by simp
    let ?fig = "Figure (length (plots d))"
    let ?pre = "[Plt_close]
           @ (if dark_mode d then [Plt_style_use ''dark_background''] else [])
           @ [Plt_subplots (length (plots d)), Fig_subplots_adjust ?fig, Plt_xlabel ''t/s'']
           @ map (\<lambda>(p, a). Plot_initialize p (Single a))
               (zip (plots d) (map Axes [0..<length (plots d)]))
           @ [Plt_pause]"
    show ?thesis
      apply (rule exI [of _ "d\<lparr>figure := Some ?fig\<rparr>"])
      apply (rule exI [of _ "w\<lparr>events := events w @ ?pre @ ?steps\<rparr>"])
      apply (rule exI [of _ ?fig])
      using uc k b apply (simp add: step_first [OF None ne b] step_with_figure update_with_figure)
      done
  qed
next
  assume none: "figure d = None" and ne: "plots d \<noteq> []" and b: "list_all binds (plots d)"
  let ?fig = "Figure (length (plots d))"
  let ?res = "step k state reference action reward done d w"
  let ?rest = "if update_cycle d \<noteq> 0 \<and> (k + 1) mod update_cycle d = 0
               then map Plot_update (plots d)
                   @ (if backend w = ''NbAgg'' then [Canvas_draw ?fig] else [])
                   @ [Canvas_flush_events ?fig]
               else []"
  show "\<exists>r d' w' rest. step k state reference action reward done d w = (r, d', w')
            \<and> figure d' = Some (Figure (length (plots d)))
            \<and> events w' = events w @ [Plt_close]
                 @ (if dark_mode d then [Plt_style_use ''dark_background''] else [])
                 @ [Plt_subplots (length (plots d)),
                    Fig_subplots_adjust (Figure (length (plots d))),
                    Plt_xlabel ''t/s'']
                 @ map (\<lambda>(p, a). Plot_initialize p (Single a))
                     (zip (plots d) (map Axes [0..<length (plots d)]))
                 @ [Plt_pause]
                 @ map (\<lambda>p. Plot_step p k state reference action reward done) (plots d)
                 @ rest"
    apply (rule exI [of _ "fst ?res"])
    apply (rule exI [of _ "fst (snd ?res)"])
    apply (rule exI [of _ "snd (snd ?res)"])
    apply (rule exI [of _ ?rest])
    using b apply (simp add: step_first [OF none ne b] step_with_figure)
    done
next
  assume "figure e = None" and "plots e \<noteq> []" and "\<not> list_all binds (plots e)"
  then show "step k state reference action reward done e w =
          (Inl TypeError, e\<lparr>figure := Some (Figure (length (plots e)))\<rparr>,
           w\<lparr>events := events w @ [Plt_close]
                @ (if dark_mode e then [Plt_style_use ''dark_background''] else [])
                @ [Plt_subplots (length (plots e)),
                   Fig_subplots_adjust (Figure (length (plots e))),
                   Plt_xlabel ''t/s'']
                @ map (\<lambda>(p, a). Plot_initialize p (Single a))
                    (takeWhile (\<lambda>x. binds (fst x))
                       (zip (plots e) (map Axes [0..<length (plots e)])))\<rparr>)"
    by (rule step_first_unbound)
qed

theorem update_runs_with_figure_witness:
  "(let d = \<lparr>update_cycle = 3, figure = None, plots = [RewardPlot, StatePlot ''omega''],
             dark_mode = False\<rparr>;
        e = \<lparr>update_cycle = 3, figure = None,
             plots = [RewardPlot, Supplied (Class RewardPlot_class)], dark_mode = False\<rparr>;
        w = \<lparr>backend = ''NbAgg'', events = [Plt_ion]\<rparr>
    in update_cycle d \<noteq> 0 \<and> (2 + 1) mod update_cycle d = 0 \<and> figure d = None \<and> plots d \<noteq> []
       \<and> list_all binds (plots d)
       \<and> figure e = None \<and> plots e \<noteq> [] \<and> \<not> list_all binds (plots e)
       \<and> fst (update (d\<lparr>figure := None\<rparr>) w) = Inl AttributeError
       \<and> fst (step 2 [1] [2] None None False d w) = Inr ()
       \<and> (\<exists>d1 w1 fig. step 2 [1] [2] None None False d w = update d1 w1
             \<and> figure d1 = Some fig \<and> fst (update d1 w1) = Inr ())
       \<and> (\<exists>r d' w' rest. step 2 [1] [2] None None False d w = (r, d', w')
            \<and> figure d' = Some (Figure 2)
            \<and> events w' = [Plt_ion, Plt_close, Plt_subplots 2, Fig_subplots_adjust (Figure 2),
                 Plt_xlabel ''t/s'',
                 Plot_initialize RewardPlot (Single (Axes 0)),
                 Plot_initialize (StatePlot ''omega'') (Single (Axes 1)),
                 Plt_pause,
                 Plot_step RewardPlot 2 [1] [2] None None False,
                 Plot_step (StatePlot ''omega'') 2 [1] [2] None None False] @ rest)
       \<and> step 2 [1] [2] None None False e w =
           (Inl TypeError, e\<lparr>figure := Some (Figure 2)\<rparr>,
            w\<lparr>events := [Plt_ion, Plt_close, Plt_subplots 2, Fig_subplots_adjust (Figure 2),
                           Plt_xlabel ''t/s'',
                           Plot_initialize RewardPlot (Single (Axes 0))]\<rparr>))"
proof -
  let ?d = "\<lparr>update_cycle = 3, figure = None, plots = [RewardPlot, StatePlot ''omega''],
             dark_mode = False\<rparr>"
  let ?e = "\<lparr>update_cycle = 3, figure = None,
             plots = [RewardPlot, Supplied (Class RewardPlot_class)], dark_mode = False\<rparr>"
  let ?w = "\<lparr>backend = ''NbAgg'', events = [Plt_ion]\<rparr>"
  have h: "update_cycle ?d \<noteq> 0" "(2 + 1) mod update_cycle ?d = 0" "figure ?d = None"
    "plots ?d \<noteq> []" "list_all binds (plots ?d)"
    by simp_all
  have hd: "figure ?d \<noteq> None \<or> plots ?d \<noteq> []" by simp
  have he: "figure ?e = None" "plots ?e \<noteq> []" "\<not> list_all binds (plots ?e)"
    by simp_all
  note t = update_runs_with_figure [of 2 "[1]" "[2]" None None False ?d ?w ?e]
  from t h have att: "fst (update (?d\<lparr>figure := None\<rparr>) ?w) = Inl AttributeError"
    by blast
  from t h hd have upd: "\<exists>d1 w1 fig. step 2 [1] [2] None None False ?d ?w = update d1 w1
             \<and> figure d1 = Some fig \<and> fst (update d1 w1) = Inr ()"
    by blast
  then have ok: "fst (step 2 [1] [2] None None False ?d ?w) = Inr ()"
    by auto
  from t h have "\<exists>r d' w' rest. step 2 [1] [2] None None False ?d ?w = (r, d', w')
            \<and> figure d' = Some (Figure (length (plots ?d)))
            \<and> events w' = events ?w @ [Plt_close]
                 @ (if dark_mode ?d then [Plt_style_use ''dark_background''] else [])
                 @ [Plt_subplots (length (plots ?d)),
                    Fig_subplots_adjust (Figure (length (plots ?d))),
                    Plt_xlabel ''t/s'']
                 @ map (\<lambda>(p, a). Plot_initialize p (Single a))
                     (zip (plots ?d) (map Axes [0..<length (plots ?d)]))
                 @ [Plt_pause]
                 @ map (\<lambda>p. Plot_step p 2 [1] [2] None None False) (plots ?d)
                 @ rest"
    by blast
  then have ord: "\<exists>r d' w' rest. step 2 [1] [2] None None False ?d ?w = (r, d', w')
            \<and> figure d' = Some (Figure 2)
            \<and> events w' = [Plt_ion, Plt_close, Plt_subplots 2, Fig_subplots_adjust (Figure 2),
                 Plt_xlabel ''t/s'',
                 Plot_initialize RewardPlot (Single (Axes 0)),
                 Plot_initialize (StatePlot ''omega'') (Single (Axes 1)),
                 Plt_pause,
                 Plot_step RewardPlot 2 [1] [2] None None False,
                 Plot_step (StatePlot ''omega'') 2 [1] [2] None None False] @ rest"
    by (simp add: upt_rec numeral_2_eq_2)
  from t he have "step 2 [1] [2] None None False ?e ?w =
          (Inl TypeError, ?e\<lparr>figure := Some (Figure (length (plots ?e)))\<rparr>,
           ?w\<lparr>events := events ?w @ [Plt_close]
                @ (if dark_mode ?e then [Plt_style_use ''dark_background''] else [])
                @ [Plt_subplots (length (plots ?e)),
                   Fig_subplots_adjust (Figure (length (plots ?e))),
                   Plt_xlabel ''t/s'']
                @ map (\<lambda>(p, a). Plot_initialize p (Single a))
                    (takeWhile (\<lambda>x. binds (fst x))
                       (zip (plots ?e) (map Axes [0..<length (plots ?e)])))\<rparr>)"
    by blast
  then have unb: "step 2 [1] [2] None None False ?e ?w =
           (Inl TypeError, ?e\<lparr>figure := Some (Figure 2)\<rparr>,
            ?w\<lparr>events := [Plt_ion, Plt_close, Plt_subplots 2, Fig_subplots_adjust (Figure 2),
                           Plt_xlabel ''t/s'',
                           Plot_initialize RewardPlot (Single (Axes 0))]\<rparr>)"
    by (simp add: upt_rec numeral_2_eq_2)
  from h he att ok upd ord unb show ?thesis unfolding Let_def by blast
qed

section \<open>The redraw cadence\<close>

text \<open>
  C1, as amended. Take a dashboard with \<^verbatim>\<open>update_cycle\<close> other than 0 that has its
  figure or holds at least one plot, and whose plots all bind (the plots the constructor
  builds from string tags do). On it \<^verbatim>\<open>step\<close> returns normally. It forwards the step
  data to every plot and then, if and only if \<^verbatim>\<open>(k + 1) % update_cycle == 0\<close>, redraws:
  every plot is asked to update and the canvas is flushed once. So for a positive
  \<^verbatim>\<open>update_cycle\<close> the calls with \<^verbatim>\<open>k = 0, ..., update_cycle - 2\<close> redraw nothing and
  the next call, with \<^verbatim>\<open>k = update_cycle - 1\<close>, redraws exactly once.
\<close>

theorem step_redraws_on_cycle:
  assumes "update_cycle d \<noteq> 0" and "figure d \<noteq> None \<or> plots d \<noteq> []"
    and "list_all binds (plots d)"
  shows "(\<exists>d' w' fig pre. step k state reference action reward done d w = (Inr (), d', w')
            \<and> figure d' = Some fig \<and> filter is_flush pre = []
            \<and> events w' = events w @ pre
                 @ map (\<lambda>p. Plot_step p k state reference action reward done) (plots d)
                 @ (if (k + 1) mod update_cycle d = 0
                    then map Plot_update (plots d)
                         @ (if backend w = ''NbAgg'' then [Canvas_draw fig] else [])
                         @ [Canvas_flush_events fig]
                    else [])
            \<and> redraws w' = redraws w + (if (k + 1) mod update_cycle d = 0 then 1 else 0))
    \<and> (0 < update_cycle d \<longrightarrow> map fst calls = [0 .. update_cycle d - 2] \<longrightarrow>
         (\<exists>d1 w1. run calls d w = (Inr (), d1, w1) \<and> redraws w1 = redraws w
            \<and> (\<exists>d2 w2. step (update_cycle d - 1) state reference action reward done d1 w1
                          = (Inr (), d2, w2)
                  \<and> redraws w2 = redraws w + 1)))"
proof (intro conjI impI)
  show "\<exists>d' w' fig pre. step k state reference action reward done d w = (Inr (), d', w')
            \<and> figure d' = Some fig \<and> filter is_flush pre = []
            \<and> events w' = events w @ pre
                 @ map (\<lambda>p. Plot_step p k state reference action reward done) (plots d)
                 @ (if (k + 1) mod update_cycle d = 0
                    then map Plot_update (plots d)
                         @ (if backend w = ''NbAgg'' then [Canvas_draw fig] else [])
                         @ [Canvas_flush_events fig]
                    else [])
            \<and> redraws w' = redraws w + (if (k + 1) mod update_cycle d = 0 then 1 else 0)"
    using step_ok_cases [OF assms, of k state reference action reward "done" w] by blast
next
  assume pos: "0 < update_cycle d" and ks: "map fst calls = [0 .. update_cycle d - 2]"
  have "\<forall>k \<in> set (map fst calls). (k + 1) mod update_cycle d \<noteq> 0"
  proof
    fix k assume "k \<in> set (map fst calls)"
    with ks have "0 \<le> k" "k \<le> update_cycle d - 2" by simp_all
    then have "(k + 1) mod update_cycle d = k + 1" by simp
    with \<open>0 \<le> k\<close> show "(k + 1) mod update_cycle d \<noteq> 0" by simp
  qed
  from run_no_redraw [OF assms this, of w]
  obtain d1 w1 where r: "run calls d w = (Inr (), d1, w1)"
    and d1: "update_cycle d1 = update_cycle d" "figure d1 \<noteq> None \<or> plots d1 \<noteq> []"
       "plots d1 = plots d"
    and w1: "redraws w1 = redraws w"
    by blast
  from assms(1) d1 have uc: "update_cycle d1 \<noteq> 0" by simp
  from assms(3) d1 have b: "list_all binds (plots d1)" by simp
  from step_ok_cases [OF uc d1(2) b, of "update_cycle d - 1" state reference action reward "done" w1]
  obtain d2 w2 where "step (update_cycle d - 1) state reference action reward done d1 w1 = (Inr (), d2, w2)"
    and "redraws w2 = redraws w1 + 1"
    using d1(1) by auto
  with r w1 show "\<exists>d1 w1. run calls d w = (Inr (), d1, w1) \<and> redraws w1 = redraws w
            \<and> (\<exists>d2 w2. step (update_cycle d - 1) state reference action reward done d1 w1
                          = (Inr (), d2, w2)
                  \<and> redraws w2 = redraws w + 1)"
    by simp
qed

theorem step_redraws_on_cycle_witness:
  "(let d = \<lparr>update_cycle = 3, figure = None, plots = [RewardPlot, StatePlot ''omega''],
             dark_mode = False\<rparr>;
        w = \<lparr>backend = ''NbAgg'', events = [Plt_ion]\<rparr>;
        calls = [(0, [], [], None, None, False), (1, [1], [2], Some [3], Some 4, False)]
    in update_cycle d \<noteq> 0 \<and> plots d \<noteq> [] \<and> list_all binds (plots d) \<and> 0 < update_cycle d
       \<and> map fst calls = [0 .. update_cycle d - 2]
       \<and> (\<exists>d' w'. step 5 [1] [2] None None True d w = (Inr (), d', w')
             \<and> redraws w' = redraws w + 1)
       \<and> (\<exists>d1 w1. run calls d w = (Inr (), d1, w1) \<and> redraws w1 = redraws w
            \<and> (\<exists>d2 w2. step 2 [1] [2] None None True d1 w1 = (Inr (), d2, w2)
                  \<and> redraws w2 = redraws w + 1)))"
proof -
  let ?d = "\<lparr>update_cycle = 3, figure = None, plots = [RewardPlot, StatePlot ''omega''],
             dark_mode = False\<rparr>"
  let ?w = "\<lparr>backend = ''NbAgg'', events = [Plt_ion]\<rparr>"
  let ?calls = "[(0, [], [], None, None, False), (1, [1], [2], Some [3], Some 4, False)]
                  :: step_args list"
  have h1: "update_cycle ?d \<noteq> 0" by simp
  have h2: "figure ?d \<noteq> None \<or> plots ?d \<noteq> []" by simp
  have hb: "list_all binds (plots ?d)" by simp
  have h3: "0 < update_cycle ?d" by simp
  have h4: "map fst ?calls = [0 .. update_cycle ?d - 2]" by (simp add: upto.simps)
  from step_redraws_on_cycle [OF h1 h2 hb, of 5 "[1]" "[2]" None None True ?w ?calls] h3 h4
  have "(\<exists>d' w'. step 5 [1] [2] None None True ?d ?w = (Inr (), d', w')
             \<and> redraws w' = redraws ?w + 1)
       \<and> (\<exists>d1 w1. run ?calls ?d ?w = (Inr (), d1, w1) \<and> redraws w1 = redraws ?w
            \<and> (\<exists>d2 w2. step 2 [1] [2] None None True d1 w1 = (Inr (), d2, w2)
                  \<and> redraws w2 = redraws ?w + 1))"
    by auto
  with h1 hb h3 h4 show ?thesis unfolding Let_def by simp
qed

text \<open>
  C1 as stated, for every call of \<^verbatim>\<open>step\<close>, fails on a dashboard without plots: with
  \<^verbatim>\<open>update_cycle = 1\<close> and \<^verbatim>\<open>k = 0\<close> the cadence condition holds, but the call raises
  the assertion of \<^verbatim>\<open>_initialize\<close> before it gets to the cadence test, and redraws
  nothing. It fails in the same way on the dashboard the constructor builds from the class
  object \<^verbatim>\<open>RewardPlot\<close>, where \<^verbatim>\<open>_initialize\<close> raises \<^verbatim>\<open>TypeError\<close>.
\<close>

theorem step_redraw_cadence_counterexample:
  "(0 + 1) mod update_cycle \<lparr>update_cycle = 1, figure = None, plots = [], dark_mode = False\<rparr> = 0
   \<and> step 0 [] [] None None False
        \<lparr>update_cycle = 1, figure = None, plots = [], dark_mode = False\<rparr>
        \<lparr>backend = ''TkAgg'', events = [Plt_ion]\<rparr> =
       (Inl (AssertionError ''no plot variable selected''),
        \<lparr>update_cycle = 1, figure = None, plots = [], dark_mode = False\<rparr>,
        \<lparr>backend = ''TkAgg'', events = [Plt_ion, Plt_close]\<rparr>)
   \<and> redraws \<lparr>backend = ''TkAgg'', events = [Plt_ion, Plt_close]\<rparr> = 0
   \<and> init [Class RewardPlot_class] 1 False \<lparr>backend = ''TkAgg'', events = []\<rparr> =
       (Inr \<lparr>update_cycle = 1, figure = None, plots = [Supplied (Class RewardPlot_class)],
             dark_mode = False\<rparr>,
        \<lparr>backend = ''TkAgg'', events = [Plt_ion]\<rparr>)
   \<and> step 0 [] [] None None False
        \<lparr>update_cycle = 1, figure = None, plots = [Supplied (Class RewardPlot_class)],
          dark_mode = False\<rparr>
        \<lparr>backend = ''TkAgg'', events = [Plt_ion]\<rparr> =
       (Inl TypeError,
        \<lparr>update_cycle = 1, figure = Some (Figure 1),
          plots = [Supplied (Class RewardPlot_class)], dark_mode = False\<rparr>,
        \<lparr>backend = ''TkAgg'',
          events = [Plt_ion, Plt_close, Plt_subplots 1, Fig_subplots_adjust (Figure 1),
                    Plt_xlabel ''t/s'']\<rparr>)
   \<and> redraws \<lparr>backend = ''TkAgg'',
               events = [Plt_ion, Plt_close, Plt_subplots 1, Fig_subplots_adjust (Figure 1),
                         Plt_xlabel ''t/s'']\<rparr> = 0"
  by (simp add: step_def initialize_def init_def plt_subplots_def plot_call_def emit_def
      redraws_def RewardPlot_class_def MotorDashboardPlot_def)

text \<open>
  C9, as amended. On a dashboard with \<^verbatim>\<open>update_cycle = 0\<close> every \<^verbatim>\<open>step\<close> raises, and
  the dashboard keeps \<^verbatim>\<open>update_cycle = 0\<close>. If the dashboard has its figure or holds at
  least one plot, and its plots all bind, the exception is the \<^verbatim>\<open>ZeroDivisionError\<close> of
  the cadence test, raised after the step data went to every plot, and the dashboard has
  its figure afterwards. The constructor stores whatever \<^verbatim>\<open>update_cycle\<close> it is given.
\<close>

theorem step_fails_when_update_cycle_is_zero:
  "(update_cycle d = 0 \<longrightarrow>
      (\<exists>e d' w'. step k state reference action reward done d w = (Inl e, d', w')
          \<and> update_cycle d' = 0))
   \<and> (update_cycle d = 0 \<longrightarrow> figure d \<noteq> None \<or> plots d \<noteq> [] \<longrightarrow>
        list_all binds (plots d) \<longrightarrow>
        (\<exists>d' w' fig pre. step k state reference action reward done d w
                             = (Inl ZeroDivisionError, d', w')
            \<and> update_cycle d' = 0 \<and> figure d' = Some fig \<and> plots d' = plots d
            \<and> events w' = events w @ pre
                 @ map (\<lambda>p. Plot_step p k state reference action reward done) (plots d)))
   \<and> (\<forall>ps. add_plots plots_arg [] = Inr ps \<longrightarrow>
        init plots_arg cycle dark v =
          (Inr \<lparr>update_cycle = cycle, figure = None, plots = ps, dark_mode = dark\<rparr>,
           emit Plt_ion v))"
proof (intro conjI impI allI)
  assume z: "update_cycle d = 0"
  show "\<exists>e d' w'. step k state reference action reward done d w = (Inl e, d', w')
          \<and> update_cycle d' = 0"
  proof (cases "figure d")
    case (Some fig)
    with z show ?thesis by (simp add: step_with_figure)
  next
    case None
    show ?thesis
    proof (cases "plots d = []")
      case True
      with None z show ?thesis by (simp add: step_without_plots)
    next
      case False
      show ?thesis
      proof (cases "list_all binds (plots d)")
        case True
        with z show ?thesis by (simp add: step_first [OF None False True] step_with_figure)
      next
        case unbound: False
        with z show ?thesis by (simp add: step_first_unbound [OF None False unbound])
      qed
    qed
  qed
next
  assume z: "update_cycle d = 0" and pre: "figure d \<noteq> None \<or> plots d \<noteq> []"
    and b: "list_all binds (plots d)"
  let ?res = "step k state reference action reward done d w"
  show "\<exists>d' w' fig pre. step k state reference action reward done d w
                             = (Inl ZeroDivisionError, d', w')
            \<and> update_cycle d' = 0 \<and> figure d' = Some fig \<and> plots d' = plots d
            \<and> events w' = events w @ pre
                 @ map (\<lambda>p. Plot_step p k state reference action reward done) (plots d)"
  proof (cases "figure d")
    case (Some fig)
    show ?thesis
      apply (rule exI [of _ d])
      apply (rule exI [of _ "snd (snd ?res)"])
      apply (rule exI [of _ fig])
      apply (rule exI [of _ "[]"])
      using z b Some apply (simp add: step_with_figure)
      done
  next
    case None
    with pre have ne: "plots d \<noteq> []" by simp
    let ?fig = "Figure (length (plots d))"
    let ?pre = "[Plt_close]
           @ (if dark_mode d then [Plt_style_use ''dark_background''] else [])
           @ [Plt_subplots (length (plots d)), Fig_subplots_adjust ?fig, Plt_xlabel ''t/s'']
           @ map (\<lambda>(p, a). Plot_initialize p (Single a))
               (zip (plots d) (map Axes [0..<length (plots d)]))
           @ [Plt_pause]"
    show ?thesis
      apply (rule exI [of _ "d\<lparr>figure := Some ?fig\<rparr>"])
      apply (rule exI [of _ "snd (snd ?res)"])
      apply (rule exI [of _ ?fig])
      apply (rule exI [of _ ?pre])
      using z b apply (simp add: step_first [OF None ne b] step_with_figure)
      done
  qed
next
  fix ps
  assume "add_plots plots_arg [] = Inr ps"
  then show "init plots_arg cycle dark v =
          (Inr \<lparr>update_cycle = cycle, figure = None, plots = ps, dark_mode = dark\<rparr>,
           emit Plt_ion v)"
    by (simp add: init_def)
qed

theorem step_fails_when_update_cycle_is_zero_witness:
  "(let v = \<lparr>backend = ''TkAgg'', events = []\<rparr>;
        w = \<lparr>backend = ''TkAgg'', events = [Plt_ion]\<rparr>;
        d = \<lparr>update_cycle = 0, figure = None, plots = [RewardPlot], dark_mode = False\<rparr>
    in add_plots [Str ''reward''] [] = Inr [RewardPlot]
       \<and> init [Str ''reward''] 0 False v = (Inr d, w)
       \<and> update_cycle d = 0 \<and> plots d \<noteq> [] \<and> list_all binds (plots d)
       \<and> (\<exists>d' w' fig pre. step 7 [1] [2] None None False d w = (Inl ZeroDivisionError, d', w')
             \<and> update_cycle d' = 0 \<and> figure d' = Some fig \<and> plots d' = plots d
             \<and> events w' = events w @ pre @ [Plot_step RewardPlot 7 [1] [2] None None False]))"
proof -
  let ?v = "\<lparr>backend = ''TkAgg'', events = []\<rparr>"
  let ?w = "\<lparr>backend = ''TkAgg'', events = [Plt_ion]\<rparr>"
  let ?d = "\<lparr>update_cycle = 0, figure = None, plots = [RewardPlot], dark_mode = False\<rparr>"
  have a: "add_plots [Str ''reward''] [] = Inr [RewardPlot]" by simp
  have h: "update_cycle ?d = 0" "plots ?d \<noteq> []" "list_all binds (plots ?d)"
    "figure ?d \<noteq> None \<or> plots ?d \<noteq> []"
    by simp_all
  note t = step_fails_when_update_cycle_is_zero
    [of ?d 7 "[1]" "[2]" None None False ?w "[Str ''reward'']" 0 False ?v]
  from t a have i: "init [Str ''reward''] 0 False ?v = (Inr ?d, ?w)"
    by (simp add: emit_def)
  from t h have "\<exists>d' w' fig pre. step 7 [1] [2] None None False ?d ?w = (Inl ZeroDivisionError, d', w')
             \<and> update_cycle d' = 0 \<and> figure d' = Some fig \<and> plots d' = plots ?d
             \<and> events w' = events ?w @ pre
                  @ map (\<lambda>p. Plot_step p 7 [1] [2] None None False) (plots ?d)"
    by blast
  then have s: "\<exists>d' w' fig pre. step 7 [1] [2] None None False ?d ?w = (Inl ZeroDivisionError, d', w')
             \<and> update_cycle d' = 0 \<and> figure d' = Some fig \<and> plots d' = plots ?d
             \<and> events w' = events ?w @ pre @ [Plot_step RewardPlot 7 [1] [2] None None False]"
    by simp
  from a i h(1,2,3) s show ?thesis unfolding Let_def by blast
qed

text \<open>
  C9 as stated fails on a dashboard without plots: constructed with \<^verbatim>\<open>update_cycle = 0\<close>,
  its \<^verbatim>\<open>step\<close> raises the assertion of \<^verbatim>\<open>_initialize\<close>, not the division by zero,
  and no step data was forwarded.
\<close>

theorem step_update_cycle_zero_no_plots_counterexample:
  "init [] 0 False \<lparr>backend = ''TkAgg'', events = []\<rparr> =
     (Inr \<lparr>update_cycle = 0, figure = None, plots = [], dark_mode = False\<rparr>,
      \<lparr>backend = ''TkAgg'', events = [Plt_ion]\<rparr>)
   \<and> step 0 [] [] None None False
        \<lparr>update_cycle = 0, figure = None, plots = [], dark_mode = False\<rparr>
        \<lparr>backend = ''TkAgg'', events = [Plt_ion]\<rparr> =
       (Inl (AssertionError ''no plot variable selected''),
        \<lparr>update_cycle = 0, figure = None, plots = [], dark_mode = False\<rparr>,
        \<lparr>backend = ''TkAgg'', events = [Plt_ion, Plt_close]\<rparr>)
   \<and> AssertionError ''no plot variable selected'' \<noteq> ZeroDivisionError"
  by (simp add: init_def step_def initialize_def emit_def)

end
